theory Spec2Isabelle
  imports Main
begin

section \<open>The ESP32-CAM configuration header\<close>

text \<open>
  The file \<^verbatim>\<open>src/ESP32/config_template.h\<close> consists of object-like macros only.
  Every macro is embedded as a constant of the same name.  An integer literal of
  the header becomes an \<^typ>\<open>int\<close> (all values are far inside the range of a
  32-bit C \<^verbatim>\<open>int\<close>, so no wrap-around is involved), a string literal becomes
  a \<^typ>\<open>string\<close>.  The macros that the header only shows commented out
  (\<^verbatim>\<open>USE_STATIC_IP\<close>, \<^verbatim>\<open>STATIC_IP\<close>, \<^verbatim>\<open>GATEWAY\<close>, \<^verbatim>\<open>SUBNET\<close>,
  \<^verbatim>\<open>DNS1\<close>, \<^verbatim>\<open>DNS2\<close>) are not defined by it and have no counterpart here.
\<close>

subsection \<open>WiFi configuration (lines 12-13)\<close>

definition WIFI_SSID :: string where
  "WIFI_SSID = ''YOUR_WIFI_SSID''"

definition WIFI_PASSWORD :: string where
  "WIFI_PASSWORD = ''YOUR_WIFI_PASSWORD''"

subsection \<open>Server configuration (lines 25-28)\<close>

definition HTTP_PORT :: int where
  "HTTP_PORT = 81"

definition DEVICE_NAME :: string where
  "DEVICE_NAME = ''esp32cam''"

subsection \<open>Camera configuration (lines 31-45)\<close>

text \<open>The frame sizes that the header lists as options for \<^verbatim>\<open>CAMERA_FRAME_SIZE\<close>.\<close>

datatype framesize =
    FRAMESIZE_QQVGA
  | FRAMESIZE_QVGA
  | FRAMESIZE_VGA
  | FRAMESIZE_SVGA
  | FRAMESIZE_XGA
  | FRAMESIZE_SXGA
  | FRAMESIZE_UXGA

definition CAMERA_FRAME_SIZE :: framesize where
  "CAMERA_FRAME_SIZE = FRAMESIZE_VGA"

definition JPEG_QUALITY :: int where
  "JPEG_QUALITY = 12"

definition FRAME_DELAY_MS :: int where
  "FRAME_DELAY_MS = 33"

subsection \<open>Hardware configuration: camera pins (lines 49-64)\<close>

definition PWDN_GPIO_NUM :: int where
  "PWDN_GPIO_NUM = 32"

definition RESET_GPIO_NUM :: int where
  "RESET_GPIO_NUM = -1"

definition XCLK_GPIO_NUM :: int where
  "XCLK_GPIO_NUM = 0"

definition SIOD_GPIO_NUM :: int where
  "SIOD_GPIO_NUM = 26"

definition SIOC_GPIO_NUM :: int where
  "SIOC_GPIO_NUM = 27"

definition Y9_GPIO_NUM :: int where
  "Y9_GPIO_NUM = 35"

definition Y8_GPIO_NUM :: int where
  "Y8_GPIO_NUM = 34"

definition Y7_GPIO_NUM :: int where
  "Y7_GPIO_NUM = 39"

definition Y6_GPIO_NUM :: int where
  "Y6_GPIO_NUM = 36"

definition Y5_GPIO_NUM :: int where
  "Y5_GPIO_NUM = 21"

definition Y4_GPIO_NUM :: int where
  "Y4_GPIO_NUM = 19"

definition Y3_GPIO_NUM :: int where
  "Y3_GPIO_NUM = 18"

definition Y2_GPIO_NUM :: int where
  "Y2_GPIO_NUM = 5"

definition VSYNC_GPIO_NUM :: int where
  "VSYNC_GPIO_NUM = 25"

definition HREF_GPIO_NUM :: int where
  "HREF_GPIO_NUM = 23"

definition PCLK_GPIO_NUM :: int where
  "PCLK_GPIO_NUM = 22"

subsection \<open>Features (lines 68-74)\<close>

definition ENABLE_MDNS :: int where
  "ENABLE_MDNS = 1"

definition ENABLE_OTA :: int where
  "ENABLE_OTA = 0"

definition ENABLE_SERIAL :: int where
  "ENABLE_SERIAL = 1"

definition LED_FLASH_GPIO :: int where
  "LED_FLASH_GPIO = 4"

definition ENABLE_FLASH :: int where
  "ENABLE_FLASH = 0"

subsection \<open>Advanced settings (lines 78-87)\<close>

definition CAM_BRIGHTNESS :: int where
  "CAM_BRIGHTNESS = 0"

definition CAM_CONTRAST :: int where
  "CAM_CONTRAST = 0"

definition CAM_SATURATION :: int where
  "CAM_SATURATION = 0"

definition CAM_SHARPNESS :: int where
  "CAM_SHARPNESS = 0"

definition CAM_DENOISE :: int where
  "CAM_DENOISE = 0"

definition CAM_AE_LEVEL :: int where
  "CAM_AE_LEVEL = 0"

definition CAM_GAIN_CEILING :: int where
  "CAM_GAIN_CEILING = 0"

definition WATCHDOG_TIMEOUT :: int where
  "WATCHDOG_TIMEOUT = 30"

subsection \<open>API configuration (lines 91-95)\<close>

definition CORS_ORIGIN :: string where
  "CORS_ORIGIN = ''*''"

definition ENABLE_AUTH :: int where
  "ENABLE_AUTH = 0"

definition API_KEY :: string where
  "API_KEY = ''your_secret_api_key_here''"

subsection \<open>The feature switches and their annotations\<close>

text \<open>
  The header has five \<^verbatim>\<open>ENABLE_*\<close> switches.  Two of them carry the remark
  "not implemented yet": \<^verbatim>\<open>ENABLE_OTA\<close> in its trailing comment (line 69) and
  \<^verbatim>\<open>ENABLE_AUTH\<close> in the comment that heads it (line 93).
\<close>

datatype feature = MDNS | OTA | SERIAL | FLASH | AUTH

fun feature_switch :: "feature \<Rightarrow> int" where
  "feature_switch MDNS = ENABLE_MDNS"
| "feature_switch OTA = ENABLE_OTA"
| "feature_switch SERIAL = ENABLE_SERIAL"
| "feature_switch FLASH = ENABLE_FLASH"
| "feature_switch AUTH = ENABLE_AUTH"

fun marked_not_implemented :: "feature \<Rightarrow> bool" where
  "marked_not_implemented MDNS = False"
| "marked_not_implemented OTA = True"
| "marked_not_implemented SERIAL = False"
| "marked_not_implemented FLASH = False"
| "marked_not_implemented AUTH = True"

section \<open>Unfolding the constants\<close>

lemmas camera_pin_defs =
  PWDN_GPIO_NUM_def RESET_GPIO_NUM_def XCLK_GPIO_NUM_def SIOD_GPIO_NUM_def
  SIOC_GPIO_NUM_def Y9_GPIO_NUM_def Y8_GPIO_NUM_def Y7_GPIO_NUM_def Y6_GPIO_NUM_def
  Y5_GPIO_NUM_def Y4_GPIO_NUM_def Y3_GPIO_NUM_def Y2_GPIO_NUM_def VSYNC_GPIO_NUM_def
  HREF_GPIO_NUM_def PCLK_GPIO_NUM_def

lemmas switch_defs =
  ENABLE_MDNS_def ENABLE_OTA_def ENABLE_SERIAL_def ENABLE_FLASH_def ENABLE_AUTH_def

lemmas sensor_defs =
  CAM_BRIGHTNESS_def CAM_CONTRAST_def CAM_SATURATION_def CAM_SHARPNESS_def
  CAM_DENOISE_def CAM_AE_LEVEL_def CAM_GAIN_CEILING_def

section \<open>Properties of the configuration\<close>

text \<open>
  C1: the sixteen camera pin constants are pairwise distinct, \<^verbatim>\<open>RESET_GPIO_NUM\<close> is
  \<open>-1\<close> (the pin is unused), and each of the other fifteen is non-negative.
\<close>

theorem camera_pins_distinct_nonneg:
  "distinct [PWDN_GPIO_NUM, RESET_GPIO_NUM, XCLK_GPIO_NUM, SIOD_GPIO_NUM, SIOC_GPIO_NUM,
             Y9_GPIO_NUM, Y8_GPIO_NUM, Y7_GPIO_NUM, Y6_GPIO_NUM, Y5_GPIO_NUM, Y4_GPIO_NUM,
             Y3_GPIO_NUM, Y2_GPIO_NUM, VSYNC_GPIO_NUM, HREF_GPIO_NUM, PCLK_GPIO_NUM]
   \<and> RESET_GPIO_NUM = -1
   \<and> 0 \<le> PWDN_GPIO_NUM \<and> 0 \<le> XCLK_GPIO_NUM \<and> 0 \<le> SIOD_GPIO_NUM
   \<and> 0 \<le> SIOC_GPIO_NUM \<and> 0 \<le> Y9_GPIO_NUM \<and> 0 \<le> Y8_GPIO_NUM
   \<and> 0 \<le> Y7_GPIO_NUM \<and> 0 \<le> Y6_GPIO_NUM \<and> 0 \<le> Y5_GPIO_NUM
   \<and> 0 \<le> Y4_GPIO_NUM \<and> 0 \<le> Y3_GPIO_NUM \<and> 0 \<le> Y2_GPIO_NUM
   \<and> 0 \<le> VSYNC_GPIO_NUM \<and> 0 \<le> HREF_GPIO_NUM \<and> 0 \<le> PCLK_GPIO_NUM"
  by (simp add: camera_pin_defs)

text \<open>
  C2: the sixteen camera pin constants have the values of the AI-Thinker ESP32-CAM
  wiring: PWDN 32, RESET -1, XCLK 0, SIOD 26, SIOC 27, Y9 35, Y8 34, Y7 39, Y6 36,
  Y5 21, Y4 19, Y3 18, Y2 5, VSYNC 25, HREF 23, PCLK 22.
\<close>

theorem camera_pins_ai_thinker:
  "PWDN_GPIO_NUM = 32 \<and> RESET_GPIO_NUM = -1 \<and> XCLK_GPIO_NUM = 0
   \<and> SIOD_GPIO_NUM = 26 \<and> SIOC_GPIO_NUM = 27
   \<and> Y9_GPIO_NUM = 35 \<and> Y8_GPIO_NUM = 34 \<and> Y7_GPIO_NUM = 39 \<and> Y6_GPIO_NUM = 36
   \<and> Y5_GPIO_NUM = 21 \<and> Y4_GPIO_NUM = 19 \<and> Y3_GPIO_NUM = 18 \<and> Y2_GPIO_NUM = 5
   \<and> VSYNC_GPIO_NUM = 25 \<and> HREF_GPIO_NUM = 23 \<and> PCLK_GPIO_NUM = 22"
  by (simp add: camera_pin_defs)

text \<open>
  C3: \<^verbatim>\<open>JPEG_QUALITY\<close> lies in the range 10 to 63 that its comment documents.
\<close>

theorem jpeg_quality_in_range: "10 \<le> JPEG_QUALITY \<and> JPEG_QUALITY \<le> 63"
  by (simp add: JPEG_QUALITY_def)

text \<open>
  C4: the sensor tuning constants lie in their documented ranges: brightness,
  contrast, saturation, sharpness and auto-exposure level in -2 to 2, and the gain
  ceiling in 0 to 6.
\<close>

theorem sensor_settings_in_range:
  "- 2 \<le> CAM_BRIGHTNESS \<and> CAM_BRIGHTNESS \<le> 2
   \<and> - 2 \<le> CAM_CONTRAST \<and> CAM_CONTRAST \<le> 2
   \<and> - 2 \<le> CAM_SATURATION \<and> CAM_SATURATION \<le> 2
   \<and> - 2 \<le> CAM_SHARPNESS \<and> CAM_SHARPNESS \<le> 2
   \<and> - 2 \<le> CAM_AE_LEVEL \<and> CAM_AE_LEVEL \<le> 2
   \<and> 0 \<le> CAM_GAIN_CEILING \<and> CAM_GAIN_CEILING \<le> 6"
  by (simp add: sensor_defs)

text \<open>
  C5: the HTTP server port is 81.
\<close>

theorem http_port_default: "HTTP_PORT = 81"
  by (simp add: HTTP_PORT_def)

text \<open>
  C6: each of the switches \<^verbatim>\<open>ENABLE_MDNS\<close>, \<^verbatim>\<open>ENABLE_OTA\<close>, \<^verbatim>\<open>ENABLE_SERIAL\<close>,
  \<^verbatim>\<open>ENABLE_FLASH\<close>, \<^verbatim>\<open>ENABLE_AUTH\<close> and \<^verbatim>\<open>CAM_DENOISE\<close> is 0 or 1.
\<close>

theorem feature_flags_boolean:
  "(ENABLE_MDNS = 0 \<or> ENABLE_MDNS = 1)
   \<and> (ENABLE_OTA = 0 \<or> ENABLE_OTA = 1)
   \<and> (ENABLE_SERIAL = 0 \<or> ENABLE_SERIAL = 1)
   \<and> (ENABLE_FLASH = 0 \<or> ENABLE_FLASH = 1)
   \<and> (ENABLE_AUTH = 0 \<or> ENABLE_AUTH = 1)
   \<and> (CAM_DENOISE = 0 \<or> CAM_DENOISE = 1)"
  by (simp add: switch_defs CAM_DENOISE_def)

text \<open>
  C7: \<^verbatim>\<open>DEVICE_NAME\<close> is the string "esp32cam", so that appending the mDNS suffix
  ".local" to it gives the host name "esp32cam.local" of the header's comment.
\<close>

theorem device_name_mdns:
  "DEVICE_NAME = ''esp32cam'' \<and> DEVICE_NAME @ ''.local'' = ''esp32cam.local''"
  by (simp add: DEVICE_NAME_def)

text \<open>
  C8: the flash LED pin \<^verbatim>\<open>LED_FLASH_GPIO\<close> is 4 and is none of the sixteen camera
  pins.
\<close>

theorem led_flash_pin_free:
  "LED_FLASH_GPIO = 4
   \<and> LED_FLASH_GPIO \<notin> set [PWDN_GPIO_NUM, RESET_GPIO_NUM, XCLK_GPIO_NUM, SIOD_GPIO_NUM,
        SIOC_GPIO_NUM, Y9_GPIO_NUM, Y8_GPIO_NUM, Y7_GPIO_NUM, Y6_GPIO_NUM, Y5_GPIO_NUM,
        Y4_GPIO_NUM, Y3_GPIO_NUM, Y2_GPIO_NUM, VSYNC_GPIO_NUM, HREF_GPIO_NUM,
        PCLK_GPIO_NUM]"
  by (simp add: LED_FLASH_GPIO_def camera_pin_defs)

text \<open>
  C9: \<^verbatim>\<open>FRAME_DELAY_MS\<close> is 33, and the integer quotient of 1000 milliseconds by it
  is exactly 30 frames per second.  Conversely 33 is the quotient of 1000 by 30
  only because the division truncates: 1000 is not a multiple of 30, and
  30 frames of 33 ms take 990 ms.  (Both operands are positive, where the
  truncating division of C and \<open>div\<close> agree.)
\<close>

theorem frame_delay_thirty_fps:
  "FRAME_DELAY_MS = 33
   \<and> 1000 div FRAME_DELAY_MS = 30
   \<and> 1000 div 30 = FRAME_DELAY_MS
   \<and> 1000 mod 30 \<noteq> (0::int)
   \<and> 30 * FRAME_DELAY_MS = 990"
  by (simp add: FRAME_DELAY_MS_def)

text \<open>
  C10: every feature switch that the header marks as not implemented is off:
  \<^verbatim>\<open>ENABLE_OTA\<close> and \<^verbatim>\<open>ENABLE_AUTH\<close> are both 0, these two are exactly the marked
  switches, and so a marked switch is never 1.
\<close>

theorem unimplemented_features_disabled:
  "ENABLE_OTA = 0 \<and> ENABLE_AUTH = 0
   \<and> (\<forall>f. marked_not_implemented f \<longleftrightarrow> f = OTA \<or> f = AUTH)
   \<and> (\<forall>f. marked_not_implemented f \<longrightarrow> feature_switch f = 0)"
proof -
  have off: "ENABLE_OTA = 0" "ENABLE_AUTH = 0"
    by (simp_all add: switch_defs)
  have marked: "marked_not_implemented f \<longleftrightarrow> f = OTA \<or> f = AUTH" for f
    by (cases f) simp_all
  have "feature_switch f = 0" if "marked_not_implemented f" for f
    using that off by (cases f) simp_all
  with off marked show ?thesis
    by blast
qed

theorem unimplemented_features_disabled_witness:
  "marked_not_implemented OTA \<and> feature_switch OTA = 0
   \<and> marked_not_implemented AUTH \<and> feature_switch AUTH = 0"
  using unimplemented_features_disabled by simp

end
